theory Spec2Isabelle
  imports Main "HOL-Library.Word"
begin

section \<open>The droplets data source: data model\<close>

text \<open>
  The file under verification is \<^verbatim>\<open>digitalocean/datasource_digitalocean_droplets.go\<close>.
  It holds two functions with behaviour: \<^verbatim>\<open>dataSourceDigitalOceanDropletsRead\<close> (the
  paginated fetch) and \<^verbatim>\<open>dropletsDecriptionAttributes\<close> (the flattening and the
  write-back). Go's \<^verbatim>\<open>int\<close> is taken at its 64-bit width; a \<^verbatim>\<open>float64\<close> is only ever
  copied, so it is kept as its 64-bit pattern.
\<close>

type_synonym go_int = "64 word"
type_synonym float64 = "64 word"

text \<open>A Go \<^verbatim>\<open>error\<close> value is identified with the message its \<^verbatim>\<open>Error()\<close> method gives.\<close>

datatype error = Error (message: string)

text \<open>
  The API client's types (\<^verbatim>\<open>godo.Droplet\<close> and what it points to) are declared outside the
  repository. The records below carry the fields the source reads
  (\<^verbatim>\<open>droplet.Region.Slug\<close>, \<^verbatim>\<open>droplet.Image.ID\<close>, ...); the sub-structures are taken
  as present.
\<close>

record Region =
  RegionSlug :: string

record Image =
  ImageID :: go_int
  ImageSlug :: string

record Size =
  SizeSlug :: string
  PriceHourly :: float64
  PriceMonthly :: float64

text \<open>
  Modelled from the spec: the declaration of an instance's network interfaces is not in
  the source tree. The spec gives an instance a list of network interfaces, each with a
  family (v4 or v6), a scope (public or private, passed by the source as the strings
  \<^verbatim>\<open>"public"\<close> and \<^verbatim>\<open>"private"\<close>) and an address.
\<close>

datatype ip_family = V4 | V6

record NetworkIface =
  family :: ip_family
  scope :: string
  address :: string

text \<open>
  \<^verbatim>\<open>Features\<close> is a slice that the source compares with \<^verbatim>\<open>nil\<close>: \<open>None\<close> is the nil
  slice, \<open>Some []\<close> an empty one.
\<close>

record Droplet =
  ID :: go_int
  Name :: string
  Memory :: go_int
  Vcpus :: go_int
  Disk :: go_int
  Region :: Region
  Image :: Image
  Size :: Size
  Features :: "string list option"
  Locked :: bool
  Status :: string
  Networks :: "NetworkIface list"
  Tags :: "string list"
  VolumeIDs :: "string list"

text \<open>
  The values of a \<^verbatim>\<open>map[string]interface{}\<close>, one constructor per dynamic type the
  source stores. \<open>'c\<close> is the container type of the tag-flattening collaborator.
\<close>

datatype 'c attr =
    VString string
  | VInt go_int
  | VFloat float64
  | VBool bool
  | VSet "string set"
  | VTags 'c

type_synonym 'c OutputRecord = "string \<rightharpoonup> 'c attr"

text \<open>
  Collaborators that the source calls and the source tree does not hold. They are
  parameters of the model:
  \<^item> \<open>URN\<close>: \<^verbatim>\<open>droplet.URN()\<close> of the client library;
  \<^item> \<open>flattenTags\<close>: \<^verbatim>\<open>flattenTags\<close> of the provider;
  \<^item> \<open>unicodeToLower\<close>: what \<^verbatim>\<open>strings.ToLower\<close> does to a string that is not pure ASCII;
  \<^item> \<open>UniqueId\<close>: the identifier that \<^verbatim>\<open>resource.UniqueId()\<close> hands out in this run;
  \<^item> \<open>SetError\<close>: whether the framework's \<^verbatim>\<open>d.Set(key, value)\<close> fails, and with which
    error (\<open>None\<close> is Go's \<^verbatim>\<open>nil\<close>).
\<close>

record 'c env =
  URN :: "Droplet \<Rightarrow> string"
  flattenTags :: "string list \<Rightarrow> 'c"
  unicodeToLower :: "string \<Rightarrow> string"
  UniqueId :: string
  SetError :: "string \<Rightarrow> 'c OutputRecord list \<Rightarrow> error option"

section \<open>Standard-library functions\<close>

text \<open>\<^verbatim>\<open>strconv.Itoa\<close>: the decimal form of a signed integer.\<close>

definition digit_char :: "nat \<Rightarrow> char" where
  "digit_char n = ''0123456789'' ! n"

fun decimal :: "nat \<Rightarrow> string" where
  "decimal n = (if n < 10 then [digit_char n] else decimal (n div 10) @ [digit_char (n mod 10)])"

declare decimal.simps [simp del]

definition Itoa :: "go_int \<Rightarrow> string" where
  "Itoa i = (if sint i < 0 then CHR ''-'' # decimal (nat (- sint i)) else decimal (nat (sint i)))"

text \<open>
  \<^verbatim>\<open>strings.ToLower\<close>: on a string of ASCII bytes only, each of \<^verbatim>\<open>A\<close>..\<^verbatim>\<open>Z\<close> moves to its
  lower-case letter and every other byte stays; a string with a byte from 128 on goes
  through the Unicode case mapping, which is a parameter here.
\<close>

definition is_ascii :: "char \<Rightarrow> bool" where
  "is_ascii c = (\<not> digit7 c)"

definition lower_ascii :: "char \<Rightarrow> char" where
  "lower_ascii c =
     (case map_of (zip ''ABCDEFGHIJKLMNOPQRSTUVWXYZ'' ''abcdefghijklmnopqrstuvwxyz'') c of
        None \<Rightarrow> c
      | Some l \<Rightarrow> l)"

definition ToLower :: "'c env \<Rightarrow> string \<Rightarrow> string" where
  "ToLower env s = (if list_all is_ascii s then map lower_ascii s else unicodeToLower env s)"

section \<open>Helpers of the provider that the flattening calls\<close>

text \<open>
  Modelled from the spec: \<^verbatim>\<open>findIPv4AddrByType\<close> and \<^verbatim>\<open>findIPv6AddrByType\<close> are
  defined in another file of the provider, which is not in the source tree. The spec:
  search the instance's interface list for the first entry matching the family and the
  scope. The caller compares the result with the empty string, so no match gives the
  empty string.
\<close>

definition findAddrByType :: "ip_family \<Rightarrow> Droplet \<Rightarrow> string \<Rightarrow> string" where
  "findAddrByType fam d addrType =
     (case find (\<lambda>i. family i = fam \<and> scope i = addrType) (Networks d) of
        None \<Rightarrow> ''''
      | Some i \<Rightarrow> address i)"

definition findIPv4AddrByType :: "Droplet \<Rightarrow> string \<Rightarrow> string" where
  "findIPv4AddrByType d addrType = findAddrByType V4 d addrType"

definition findIPv6AddrByType :: "Droplet \<Rightarrow> string \<Rightarrow> string" where
  "findIPv6AddrByType d addrType = findAddrByType V6 d addrType"

text \<open>
  Modelled from the spec: \<^verbatim>\<open>containsDigitalOceanDropletFeature\<close> is defined in another
  file of the provider. The spec: whether the literal flag name appears in the list.
\<close>

definition containsDigitalOceanDropletFeature :: "string list \<Rightarrow> string \<Rightarrow> bool" where
  "containsDigitalOceanDropletFeature features name = (name \<in> set features)"

text \<open>
  Modelled from the spec: \<^verbatim>\<open>flattenDigitalOceanDropletVolumeIds\<close> is defined in another
  file of the provider. The spec: the identifier list as an unordered set of strings,
  duplicates collapsed.
\<close>

definition flattenDigitalOceanDropletVolumeIds :: "string list \<Rightarrow> string set" where
  "flattenDigitalOceanDropletVolumeIds volumeids = set volumeids"

section \<open>Flattening one instance\<close>

text \<open>
  The body of the loop of \<^verbatim>\<open>dropletsDecriptionAttributes\<close>: the map literal, then the
  conditional assignments in the order of the source.
\<close>

definition droplet_mapping :: "'c env \<Rightarrow> Droplet \<Rightarrow> 'c OutputRecord" where
  "droplet_mapping env droplet =
     (let mapping = [
            ''name'' \<mapsto> VString (Name droplet),
            ''urn'' \<mapsto> VString (URN env droplet),
            ''region'' \<mapsto> VString (RegionSlug (Region droplet)),
            ''size'' \<mapsto> VString (SizeSlug (Size droplet)),
            ''price_hourly'' \<mapsto> VFloat (PriceHourly (Size droplet)),
            ''price_monthly'' \<mapsto> VFloat (PriceMonthly (Size droplet)),
            ''disk'' \<mapsto> VInt (Disk droplet),
            ''vcpus'' \<mapsto> VInt (Vcpus droplet),
            ''memory'' \<mapsto> VInt (Memory droplet),
            ''status'' \<mapsto> VString (Status droplet),
            ''locked'' \<mapsto> VBool (Locked droplet)];
          mapping =
            (if ImageSlug (Image droplet) = ''''
             then mapping(''image'' \<mapsto> VString (Itoa (ImageID (Image droplet))))
             else mapping(''image'' \<mapsto> VString (ImageSlug (Image droplet))));
          publicIPv4 = findIPv4AddrByType droplet ''public'';
          mapping =
            (if publicIPv4 \<noteq> '''' then mapping(''ipv4_address'' \<mapsto> VString publicIPv4)
             else mapping);
          privateIPv4 = findIPv4AddrByType droplet ''private'';
          mapping =
            (if privateIPv4 \<noteq> ''''
             then mapping(''ipv4_address_private'' \<mapsto> VString privateIPv4)
             else mapping);
          publicIPv6 = findIPv6AddrByType droplet ''public'';
          mapping =
            (if publicIPv6 \<noteq> ''''
             then mapping(''ipv6_address'' \<mapsto> VString (ToLower env publicIPv6))
             else mapping);
          privateIPv6 = findIPv6AddrByType droplet ''private'';
          mapping =
            (if privateIPv6 \<noteq> ''''
             then mapping(''ipv6_address_private'' \<mapsto> VString (ToLower env privateIPv6))
             else mapping);
          mapping =
            (case Features droplet of
               None \<Rightarrow> mapping
             | Some features \<Rightarrow> mapping(
                 ''backups'' \<mapsto> VBool (containsDigitalOceanDropletFeature features ''backups''),
                 ''ipv6'' \<mapsto> VBool (containsDigitalOceanDropletFeature features ''ipv6''),
                 ''private_networking'' \<mapsto>
                    VBool (containsDigitalOceanDropletFeature features ''private_networking''),
                 ''monitoring'' \<mapsto>
                    VBool (containsDigitalOceanDropletFeature features ''monitoring'')));
          mapping = mapping(''volume_ids'' \<mapsto>
                      VSet (flattenDigitalOceanDropletVolumeIds (VolumeIDs droplet)));
          mapping = mapping(''tags'' \<mapsto> VTags (flattenTags env (Tags droplet)))
      in mapping)"

section \<open>The API client and the framework's store\<close>

record ListOptions =
  Page :: go_int
  PerPage :: go_int

text \<open>
  The pagination metadata of a response. \<^verbatim>\<open>IsLastPage()\<close> and \<^verbatim>\<open>CurrentPage()\<close> are
  methods of the client library; a response carries what they return, the second one
  a page number or a parse error.
\<close>

record Links =
  IsLastPage :: bool
  CurrentPage :: "error + go_int"

record Response =
  Links :: "Links option"

text \<open>
  One call of \<^verbatim>\<open>client.Droplets.ListByTag\<close> returns an error, or a page of instances
  with its response. A run of the routine is driven by the responses the client gives,
  in the order of the calls.
\<close>

type_synonym api_result = "error + Droplet list \<times> Response"

text \<open>
  The framework's \<^verbatim>\<open>schema.ResourceData\<close>: \<open>config\<close> is \<^verbatim>\<open>d.Get(key).(string)\<close> on
  the string inputs of the schema, \<open>ResourceId\<close> what \<^verbatim>\<open>d.SetId\<close> assigns, \<open>computed\<close>
  what \<^verbatim>\<open>d.Set\<close> has stored.
\<close>

record 'c ResourceData =
  config :: "string \<Rightarrow> string"
  ResourceId :: string
  computed :: "string \<rightharpoonup> 'c OutputRecord list"

text \<open>The calls the routine makes on its collaborators, in order.\<close>

datatype 'c call =
    CallListByTag string ListOptions
  | CallSetId string
  | CallSet string "'c OutputRecord list"

section \<open>The paginated fetch\<close>

text \<open>\<^verbatim>\<open>fmt.Errorf("Error retrieving droplets: %s", err)\<close>\<close>

definition Errorf :: "error \<Rightarrow> error" where
  "Errorf err = Error (''Error retrieving droplets: '' @ message err)"

text \<open>
  The \<^verbatim>\<open>for\<close> loop of \<^verbatim>\<open>dataSourceDigitalOceanDropletsRead\<close>. Each iteration takes the
  client's next response. The loop has no bound of its own: when the responses
  run out before one of them ends the loop, the result is \<open>None\<close> (the routine has not
  returned). The second component of a result is the list of calls made.
\<close>

fun fetch_loop ::
  "string \<Rightarrow> api_result list \<Rightarrow> ListOptions \<Rightarrow> Droplet list
     \<Rightarrow> ((error + Droplet list) \<times> 'c call list) option" where
  "fetch_loop tag [] opts dropletList = None"
| "fetch_loop tag (r # script) opts dropletList =
     (case r of
        Inl err \<Rightarrow> Some (Inl (Errorf err), [CallListByTag tag opts])
      | Inr (droplets, resp) \<Rightarrow>
          (let dropletList = foldl (\<lambda>l droplet. l @ [droplet]) dropletList droplets in
           case Links resp of
             None \<Rightarrow> Some (Inr dropletList, [CallListByTag tag opts])
           | Some links \<Rightarrow>
               if IsLastPage links then Some (Inr dropletList, [CallListByTag tag opts])
               else (case CurrentPage links of
                       Inl err \<Rightarrow> Some (Inl (Errorf err), [CallListByTag tag opts])
                     | Inr page \<Rightarrow>
                         (case fetch_loop tag script (opts\<lparr>Page := page + 1\<rparr>) dropletList of
                            None \<Rightarrow> None
                          | Some (res, calls) \<Rightarrow>
                              Some (res, CallListByTag tag opts # calls)))))"

text \<open>Lines 152 to 180: the initial options, the empty accumulator, the loop.\<close>

definition fetch_droplets ::
  "string \<Rightarrow> api_result list \<Rightarrow> ((error + Droplet list) \<times> 'c call list) option" where
  "fetch_droplets tag script = fetch_loop tag script \<lparr>Page = 1, PerPage = 200\<rparr> []"

section \<open>Flattening the list and writing it back\<close>

text \<open>
  \<^verbatim>\<open>dropletsDecriptionAttributes\<close>: the loop that appends one flattened record per
  instance, then \<^verbatim>\<open>d.SetId(resource.UniqueId())\<close>, then \<^verbatim>\<open>d.Set("droplets", s)\<close>, whose
  error is returned as it is. A \<^verbatim>\<open>Set\<close> that fails is taken to store nothing. The third
  component of the result is the list of calls made on the store.
\<close>

definition dropletsDecriptionAttributes ::
  "'c env \<Rightarrow> 'c ResourceData \<Rightarrow> Droplet list
     \<Rightarrow> error option \<times> 'c ResourceData \<times> 'c call list" where
  "dropletsDecriptionAttributes env d droplets =
     (let s = foldl (\<lambda>s droplet. s @ [droplet_mapping env droplet]) [] droplets;
          d = d\<lparr>ResourceId := UniqueId env\<rparr>;
          calls = [CallSetId (UniqueId env), CallSet ''droplets'' s]
      in case SetError env ''droplets'' s of
           Some err \<Rightarrow> (Some err, d, calls)
         | None \<Rightarrow> (None, d\<lparr>computed := (computed d)(''droplets'' \<mapsto> s)\<rparr>, calls))"

text \<open>
  \<^verbatim>\<open>dataSourceDigitalOceanDropletsRead\<close>. \<open>script\<close> is what the client answers, call after
  call. The result is \<open>None\<close> when the routine has not returned on these answers, and
  otherwise the error returned (\<open>None\<close> for \<^verbatim>\<open>nil\<close>), the store it leaves and the calls it
  made, in order.
\<close>

definition dataSourceDigitalOceanDropletsRead ::
  "'c env \<Rightarrow> 'c ResourceData \<Rightarrow> api_result list
     \<Rightarrow> (error option \<times> 'c ResourceData \<times> 'c call list) option" where
  "dataSourceDigitalOceanDropletsRead env d script =
     (let tag = config d ''tag'' in
      case fetch_droplets tag script of
        None \<Rightarrow> None
      | Some (Inl err, calls) \<Rightarrow> Some (Some err, d, calls)
      | Some (Inr dropletList, calls) \<Rightarrow>
          (case dropletsDecriptionAttributes env d dropletList of
             (err, d', calls') \<Rightarrow> Some (err, d', calls @ calls')))"

section \<open>Vocabulary of the properties\<close>

text \<open>
  The first entry of the interface list with a given family and scope: what the spec
  calls the match of an address field.
\<close>

definition first_iface :: "ip_family \<Rightarrow> string \<Rightarrow> Droplet \<Rightarrow> NetworkIface option" where
  "first_iface fam sc d = find (\<lambda>i. family i = fam \<and> scope i = sc) (Networks d)"

text \<open>The four address fields: family and scope searched for, key written.\<close>

definition address_fields :: "(ip_family \<times> string \<times> string) list" where
  "address_fields =
     [(V4, ''public'', ''ipv4_address''),
      (V4, ''private'', ''ipv4_address_private''),
      (V6, ''public'', ''ipv6_address''),
      (V6, ''private'', ''ipv6_address_private'')]"

text \<open>
  The integer that a decimal string denotes; an optional leading minus sign, then
  digits, the most significant first.
\<close>

definition digit_value :: "char \<Rightarrow> nat" where
  "digit_value c = length (takeWhile (\<lambda>x. x \<noteq> c) ''0123456789'')"

definition decimal_nat :: "string \<Rightarrow> nat" where
  "decimal_nat s = foldl (\<lambda>a c. 10 * a + digit_value c) 0 s"

definition decimal_int :: "string \<Rightarrow> int" where
  "decimal_int s =
     (case s of
        [] \<Rightarrow> 0
      | c # ds \<Rightarrow> if c = CHR ''-'' then - int (decimal_nat ds) else int (decimal_nat s))"

section \<open>Example inputs\<close>

text \<open>
  The instances of the scenario of the spec (tag \<^verbatim>\<open>web\<close>: one instance with an image
  slug and a public v4 address, one with neither), and one whose only interface is a
  public v4 entry with an empty address.
\<close>

definition env_ex :: "string list env" where
  "env_ex =
     \<lparr>URN = (\<lambda>d. ''do:droplet:'' @ Itoa (ID d)),
      flattenTags = (\<lambda>tags. tags),
      unicodeToLower = (\<lambda>s. s),
      UniqueId = ''terraform-20261030101500000000000001'',
      SetError = (\<lambda>key value. None)\<rparr>"

definition droplet_web1 :: Droplet where
  "droplet_web1 =
     \<lparr>ID = 3164444, Name = ''web-1'', Memory = 1024, Vcpus = 1, Disk = 25,
      Region = \<lparr>RegionSlug = ''nyc3''\<rparr>,
      Image = \<lparr>ImageID = 6918990, ImageSlug = ''ubuntu-20-04''\<rparr>,
      Size = \<lparr>SizeSlug = ''s-1vcpu-1gb'', PriceHourly = 0, PriceMonthly = 0\<rparr>,
      Features = Some [''backups'', ''ipv6''], Locked = False, Status = ''active'',
      Networks =
        [\<lparr>family = V4, scope = ''public'', address = ''10.0.0.1''\<rparr>,
         \<lparr>family = V6, scope = ''public'', address = ''2604:A880:800:10::1''\<rparr>],
      Tags = [''web''], VolumeIDs = []\<rparr>"

definition droplet_web2 :: Droplet where
  "droplet_web2 =
     \<lparr>ID = 3164445, Name = ''web-2'', Memory = 2048, Vcpus = 2, Disk = 50,
      Region = \<lparr>RegionSlug = ''nyc3''\<rparr>,
      Image = \<lparr>ImageID = 12345, ImageSlug = ''''\<rparr>,
      Size = \<lparr>SizeSlug = ''s-2vcpu-2gb'', PriceHourly = 0, PriceMonthly = 0\<rparr>,
      Features = None, Locked = False, Status = ''active'',
      Networks = [\<lparr>family = V4, scope = ''private'', address = ''10.132.0.2''\<rparr>],
      Tags = [''web''], VolumeIDs = [''vol-1'']\<rparr>"

definition droplet_blank :: Droplet where
  "droplet_blank =
     \<lparr>ID = 3164446, Name = ''web-3'', Memory = 1024, Vcpus = 1, Disk = 25,
      Region = \<lparr>RegionSlug = ''nyc3''\<rparr>,
      Image = \<lparr>ImageID = 12345, ImageSlug = ''''\<rparr>,
      Size = \<lparr>SizeSlug = ''s-1vcpu-1gb'', PriceHourly = 0, PriceMonthly = 0\<rparr>,
      Features = Some [], Locked = False, Status = ''new'',
      Networks = [\<lparr>family = V4, scope = ''public'', address = ''''\<rparr>],
      Tags = [''web''], VolumeIDs = []\<rparr>"

text \<open>
  Two instances with two public v4 entries each, one of them with an empty address: in
  the first the empty one comes second, in the other it comes first.
\<close>

definition droplet_second_blank :: Droplet where
  "droplet_second_blank =
     droplet_blank\<lparr>Networks :=
       [\<lparr>family = V4, scope = ''public'', address = ''10.0.0.1''\<rparr>,
        \<lparr>family = V4, scope = ''public'', address = ''''\<rparr>]\<rparr>"

definition droplet_first_blank :: Droplet where
  "droplet_first_blank =
     droplet_blank\<lparr>Networks :=
       [\<lparr>family = V4, scope = ''public'', address = ''''\<rparr>,
        \<lparr>family = V4, scope = ''public'', address = ''10.0.0.1''\<rparr>]\<rparr>"

section \<open>Vocabulary of the pagination properties\<close>

text \<open>
  A response is a last page when it has no pagination links or its links say so. The
  page number a response reports is what \<^verbatim>\<open>CurrentPage()\<close> parsed. A response asks for
  more pages when it is not a last page and reports a page number.
\<close>

definition last_page :: "Response \<Rightarrow> bool" where
  "last_page resp = (case Links resp of None \<Rightarrow> True | Some links \<Rightarrow> IsLastPage links)"

definition reported_page :: "Response \<Rightarrow> go_int option" where
  "reported_page resp =
     (case Links resp of
        None \<Rightarrow> None
      | Some links \<Rightarrow> (case CurrentPage links of Inl err \<Rightarrow> None | Inr page \<Rightarrow> Some page))"

definition more_pages :: "Response \<Rightarrow> bool" where
  "more_pages resp = (\<not> last_page resp \<and> reported_page resp \<noteq> None)"

text \<open>
  The page numbers asked for while the pages \<open>init\<close> are served, the first request being
  for page \<open>p\<close>: one number per page of \<open>init\<close>, and one more for the request that follows.
\<close>

definition page_numbers :: "go_int \<Rightarrow> (Droplet list \<times> Response) list \<Rightarrow> go_int list" where
  "page_numbers p init = p # map (\<lambda>(droplets, resp). the (reported_page resp) + 1) init"

text \<open>
  The error that makes a response fail the fetch: the error of the request itself, or
  the parse error of the current page of a response that is not a last page.
\<close>

definition failure :: "api_result \<Rightarrow> error option" where
  "failure r =
     (case r of
        Inl err \<Rightarrow> Some err
      | Inr (droplets, resp) \<Rightarrow>
          (case Links resp of
             None \<Rightarrow> None
           | Some links \<Rightarrow>
               if IsLastPage links then None
               else (case CurrentPage links of Inl err \<Rightarrow> Some err | Inr page \<Rightarrow> None)))"

text \<open>A call on the framework's store, as opposed to a page request.\<close>

definition is_store_call :: "'c call \<Rightarrow> bool" where
  "is_store_call c = (case c of CallListByTag tag opts \<Rightarrow> False | CallSetId v \<Rightarrow> True | CallSet key value \<Rightarrow> True)"

text \<open>
  A store before the lookup, with the tag \<^verbatim>\<open>web\<close>; responses that ask for more pages,
  reporting page 1 and page 2; a last page; a store whose \<^verbatim>\<open>Set\<close> rejects every value.
\<close>

definition d_ex :: "string list ResourceData" where
  "d_ex =
     \<lparr>config = (\<lambda>key. if key = ''tag'' then ''web'' else ''''),
      ResourceId = '''',
      computed = Map.empty\<rparr>"

definition resp_page1 :: Response where
  "resp_page1 = \<lparr>Links = Some \<lparr>IsLastPage = False, CurrentPage = Inr 1\<rparr>\<rparr>"

definition resp_page2 :: Response where
  "resp_page2 = \<lparr>Links = Some \<lparr>IsLastPage = False, CurrentPage = Inr 2\<rparr>\<rparr>"

definition resp_last :: Response where
  "resp_last = \<lparr>Links = Some \<lparr>IsLastPage = True, CurrentPage = Inr 3\<rparr>\<rparr>"

definition resp_unparsed :: Response where
  "resp_unparsed =
     \<lparr>Links = Some \<lparr>IsLastPage = False, CurrentPage = Inl (Error ''invalid syntax'')\<rparr>\<rparr>"

definition env_reject :: "string list env" where
  "env_reject = env_ex\<lparr>SetError := (\<lambda>key value. Some (Error ''droplets: invalid shape''))\<rparr>"

definition script_two_pages :: "api_result list" where
  "script_two_pages =
     [Inr ([droplet_web1], resp_page1), Inr ([droplet_web2, droplet_blank], resp_last)]"

section \<open>The decimal string of an integer\<close>

lemma digit_value_digit_char: "n < 10 \<Longrightarrow> digit_value (digit_char n) = n"
proof -
  assume "n < 10"
  then have "n \<in> {0, 1, 2, 3, 4, 5, 6, 7, 8, 9}" by auto
  then show ?thesis
    by (auto simp add: digit_value_def digit_char_def)
qed

lemma digit_char_not_minus: "n < 10 \<Longrightarrow> digit_char n \<noteq> CHR ''-''"
proof -
  assume "n < 10"
  then have "n \<in> {0, 1, 2, 3, 4, 5, 6, 7, 8, 9}" by auto
  then show ?thesis
    by (auto simp add: digit_char_def)
qed

lemma decimal_nat_snoc: "decimal_nat (s @ [c]) = 10 * decimal_nat s + digit_value c"
  by (simp add: decimal_nat_def)

lemma decimal_nat_decimal: "decimal_nat (decimal n) = n"
proof (induction n rule: decimal.induct)
  case (1 n)
  show ?case
  proof (cases "n < 10")
    case True
    then show ?thesis
      by (simp add: decimal.simps [of n] decimal_nat_def digit_value_digit_char)
  next
    case False
    with "1" have "decimal_nat (decimal (n div 10)) = n div 10" by simp
    with False show ?thesis
      by (simp add: decimal.simps [of n] decimal_nat_snoc digit_value_digit_char)
  qed
qed

lemma decimal_head: "\<exists>k ds. k < 10 \<and> decimal n = digit_char k # ds"
proof (induction n rule: decimal.induct)
  case (1 n)
  show ?case
  proof (cases "n < 10")
    case True
    then show ?thesis
      by (auto simp add: decimal.simps [of n])
  next
    case False
    with "1" obtain k ds where "k < 10" "decimal (n div 10) = digit_char k # ds" by auto
    with False show ?thesis
      by (auto simp add: decimal.simps [of n])
  qed
qed

lemma decimal_int_Itoa: "decimal_int (Itoa i) = sint i"
proof (cases "sint i < 0")
  case True
  then show ?thesis
    by (simp add: Itoa_def decimal_int_def decimal_nat_decimal)
next
  case False
  obtain k ds where k: "k < 10" "decimal (nat (sint i)) = digit_char k # ds"
    using decimal_head by blast
  have "decimal_nat (digit_char k # ds) = nat (sint i)"
    using decimal_nat_decimal [of "nat (sint i)"] k by simp
  with False k show ?thesis
    by (simp add: Itoa_def decimal_int_def digit_char_not_minus)
qed

section \<open>Looking a key up in a flattened record\<close>

lemma Let_apply: "(let x = a in f x) k = (let x = a in f x k)"
  by simp

lemma map_upd_if_same: "(if c then m(k \<mapsto> v) else m) k = (if c then Some v else m k)"
  by simp

lemma map_upd_if_other: "k \<noteq> k' \<Longrightarrow> (if c then m(k' \<mapsto> v) else m) k = m k"
  by simp

lemma map_upd_if2_same:
  "(if c then m(k \<mapsto> v) else m(k \<mapsto> w)) k = Some (if c then v else w)"
  by simp

lemma map_upd_if2_other:
  "k \<noteq> k' \<Longrightarrow> (if c then m(k' \<mapsto> v) else m(k' \<mapsto> w)) k = m k"
  by simp

lemma case_upd4_other:
  "k \<noteq> k1 \<Longrightarrow> k \<noteq> k2 \<Longrightarrow> k \<noteq> k3 \<Longrightarrow> k \<noteq> k4 \<Longrightarrow>
   (case x of None \<Rightarrow> m
    | Some y \<Rightarrow> m(k1 \<mapsto> f1 y, k2 \<mapsto> f2 y, k3 \<mapsto> f3 y, k4 \<mapsto> f4 y)) k = m k"
  by (simp split: option.split)

lemma case_upd4_same:
  "(case x of None \<Rightarrow> m
    | Some y \<Rightarrow> m(k1 \<mapsto> f1 y, k2 \<mapsto> f2 y, k3 \<mapsto> f3 y, k4 \<mapsto> f4 y)) k =
   (if k = k4 then case_option (m k) (\<lambda>y. Some (f4 y)) x
    else if k = k3 then case_option (m k) (\<lambda>y. Some (f3 y)) x
    else if k = k2 then case_option (m k) (\<lambda>y. Some (f2 y)) x
    else if k = k1 then case_option (m k) (\<lambda>y. Some (f1 y)) x
    else m k)"
  by (simp split: option.split)

lemma case_option_None_map: "case_option None (\<lambda>y. Some (f y)) x = map_option f x"
  by (simp split: option.split)

lemmas lookup_simps =
  map_upd_if_same map_upd_if_other map_upd_if2_same map_upd_if2_other case_upd4_same
  case_option_None_map

lemma mapping_image:
  "droplet_mapping env d ''image'' =
     Some (VString (if ImageSlug (Image d) = '''' then Itoa (ImageID (Image d))
                    else ImageSlug (Image d)))"
  unfolding droplet_mapping_def
  apply (simp only: Let_apply)
  apply (simp add: lookup_simps split del: if_split cong: if_cong option.case_cong)
  apply simp_all
  done

lemma mapping_ipv4_address:
  "droplet_mapping env d ''ipv4_address'' =
     (if findIPv4AddrByType d ''public'' \<noteq> ''''
      then Some (VString (findIPv4AddrByType d ''public'')) else None)"
  unfolding droplet_mapping_def
  apply (simp only: Let_apply)
  apply (simp add: lookup_simps split del: if_split cong: if_cong option.case_cong)
  apply simp_all
  done

lemma mapping_ipv4_address_private:
  "droplet_mapping env d ''ipv4_address_private'' =
     (if findIPv4AddrByType d ''private'' \<noteq> ''''
      then Some (VString (findIPv4AddrByType d ''private'')) else None)"
  unfolding droplet_mapping_def
  apply (simp only: Let_apply)
  apply (simp add: lookup_simps split del: if_split cong: if_cong option.case_cong)
  apply simp_all
  done

lemma mapping_ipv6_address:
  "droplet_mapping env d ''ipv6_address'' =
     (if findIPv6AddrByType d ''public'' \<noteq> ''''
      then Some (VString (ToLower env (findIPv6AddrByType d ''public''))) else None)"
  unfolding droplet_mapping_def
  apply (simp only: Let_apply)
  apply (simp add: lookup_simps split del: if_split cong: if_cong option.case_cong)
  apply simp_all
  done

lemma mapping_ipv6_address_private:
  "droplet_mapping env d ''ipv6_address_private'' =
     (if findIPv6AddrByType d ''private'' \<noteq> ''''
      then Some (VString (ToLower env (findIPv6AddrByType d ''private''))) else None)"
  unfolding droplet_mapping_def
  apply (simp only: Let_apply)
  apply (simp add: lookup_simps split del: if_split cong: if_cong option.case_cong)
  apply simp_all
  done

lemma mapping_backups:
  "droplet_mapping env d ''backups'' =
     map_option (\<lambda>fs. VBool (containsDigitalOceanDropletFeature fs ''backups'')) (Features d)"
  unfolding droplet_mapping_def
  apply (simp only: Let_apply)
  apply (simp add: lookup_simps split del: if_split cong: if_cong option.case_cong)
  done

lemma mapping_ipv6:
  "droplet_mapping env d ''ipv6'' =
     map_option (\<lambda>fs. VBool (containsDigitalOceanDropletFeature fs ''ipv6'')) (Features d)"
  unfolding droplet_mapping_def
  apply (simp only: Let_apply)
  apply (simp add: lookup_simps split del: if_split cong: if_cong option.case_cong)
  done

lemma mapping_private_networking:
  "droplet_mapping env d ''private_networking'' =
     map_option (\<lambda>fs. VBool (containsDigitalOceanDropletFeature fs ''private_networking''))
       (Features d)"
  unfolding droplet_mapping_def
  apply (simp only: Let_apply)
  apply (simp add: lookup_simps split del: if_split cong: if_cong option.case_cong)
  done

lemma mapping_monitoring:
  "droplet_mapping env d ''monitoring'' =
     map_option (\<lambda>fs. VBool (containsDigitalOceanDropletFeature fs ''monitoring'')) (Features d)"
  unfolding droplet_mapping_def
  apply (simp only: Let_apply)
  apply (simp add: lookup_simps split del: if_split cong: if_cong option.case_cong)
  done

section \<open>Properties of the flattening\<close>

lemma findAddrByType_first:
  "findAddrByType fam d sc = (case first_iface fam sc d of None \<Rightarrow> '''' | Some i \<Rightarrow> address i)"
  by (simp add: findAddrByType_def first_iface_def)

lemma mapping_address_field:
  assumes "(fam, sc, key) \<in> set address_fields"
  shows "droplet_mapping env d key =
           (if findAddrByType fam d sc = '''' then None
            else Some (VString (if fam = V6 then ToLower env (findAddrByType fam d sc)
                                else findAddrByType fam d sc)))"
  using assms
  by (auto simp add: address_fields_def mapping_ipv4_address mapping_ipv4_address_private
      mapping_ipv6_address mapping_ipv6_address_private findIPv4AddrByType_def
      findIPv6AddrByType_def)

text \<open>
  Claim C3. For every instance, the \<^verbatim>\<open>image\<close> field of the output record is the image's
  slug, verbatim, when the slug is not empty, and otherwise the decimal string of the
  image's numeric id: the string that \<^verbatim>\<open>strconv.Itoa\<close> gives, which denotes that id.
\<close>

theorem image_field:
  "droplet_mapping env droplet ''image'' =
     Some (VString (if ImageSlug (Image droplet) \<noteq> '''' then ImageSlug (Image droplet)
                    else Itoa (ImageID (Image droplet)))) \<and>
   decimal_int (Itoa (ImageID (Image droplet))) = sint (ImageID (Image droplet))"
  by (simp add: mapping_image decimal_int_Itoa)

theorem image_field_witness:
  "droplet_mapping env_ex droplet_web1 ''image'' = Some (VString ''ubuntu-20-04'') \<and>
   droplet_mapping env_ex droplet_web2 ''image'' = Some (VString ''12345'') \<and>
   decimal_int ''12345'' = 12345"
  using image_field [of env_ex droplet_web1] image_field [of env_ex droplet_web2]
  by (simp add: droplet_web1_def droplet_web2_def Itoa_def decimal.simps digit_char_def)

text \<open>
  Claim C4 as stated has each address key present if and only if the interface list has
  an entry of the family and scope. An instance whose public v4 entry has an empty
  address has such an entry and no \<^verbatim>\<open>ipv4_address\<close> key.
\<close>

theorem address_present_iff_match_counterexample:
  "\<lparr>family = V4, scope = ''public'', address = ''''\<rparr> \<in> set (Networks droplet_blank) \<and>
   droplet_mapping env_ex droplet_blank ''ipv4_address'' = None"
  by (simp add: mapping_ipv4_address droplet_blank_def findIPv4AddrByType_def
      findAddrByType_def)

text \<open>
  Claim C4, amended. For every instance and each of the four address fields, the value
  comes from the first entry of the interface list with the field's family and scope.
  The key is present if and only if there is such an entry and its address is not empty;
  the value is then that address, lower-cased for the two v6 fields. Otherwise the key is
  absent.
\<close>

theorem address_fields_first_nonempty:
  "\<forall>(fam, sc, key) \<in> set address_fields.
     droplet_mapping env d key =
       (case first_iface fam sc d of
          None \<Rightarrow> None
        | Some i \<Rightarrow>
            if address i = '''' then None
            else Some (VString (if fam = V6 then ToLower env (address i) else address i)))"
  by (auto simp add: mapping_address_field findAddrByType_first split: option.split)

theorem address_fields_first_nonempty_witness:
  "droplet_mapping env_ex droplet_web1 ''ipv4_address'' = Some (VString ''10.0.0.1'') \<and>
   droplet_mapping env_ex droplet_web1 ''ipv4_address_private'' = None \<and>
   droplet_mapping env_ex droplet_web1 ''ipv6_address'' =
     Some (VString ''2604:a880:800:10::1'') \<and>
   droplet_mapping env_ex droplet_web1 ''ipv6_address_private'' = None \<and>
   droplet_mapping env_ex droplet_blank ''ipv4_address'' = None"
  using address_fields_first_nonempty [of env_ex droplet_web1]
    address_fields_first_nonempty [of env_ex droplet_blank]
  by (simp add: address_fields_def first_iface_def droplet_web1_def droplet_blank_def
      ToLower_def is_ascii_def lower_ascii_def)

text \<open>
  Claim C10 as stated has the key absent for every instance whose interface list holds
  an entry of the family and scope with an empty address. An instance with two public
  v4 entries, the first with an address and the second with an empty one, holds such an
  entry and has the \<^verbatim>\<open>ipv4_address\<close> key: the search stops at the first match.
\<close>

theorem empty_entry_omits_key_counterexample:
  "\<lparr>family = V4, scope = ''public'', address = ''''\<rparr> \<in> set (Networks droplet_second_blank) \<and>
   droplet_mapping env_ex droplet_second_blank ''ipv4_address'' = Some (VString ''10.0.0.1'')"
  by (simp add: mapping_ipv4_address droplet_second_blank_def droplet_blank_def
      findIPv4AddrByType_def findAddrByType_def)

text \<open>
  Claim C10, amended. When the first entry of the interface list with a family and scope
  has an empty address, the key of that address field is absent, whatever the later
  entries hold. The test is on the string found: the key is absent exactly when the
  search gives the empty string, which is also what it gives when no entry matches.
\<close>

theorem empty_address_omitted:
  assumes "(fam, sc, key) \<in> set address_fields"
  shows "(\<forall>i. first_iface fam sc d = Some i \<longrightarrow> address i = '''' \<longrightarrow>
            droplet_mapping env d key = None) \<and>
         (droplet_mapping env d key = None \<longleftrightarrow> findAddrByType fam d sc = '''')"
  by (simp add: mapping_address_field [OF assms] findAddrByType_first)

theorem empty_address_omitted_witness:
  "(V4, ''public'', ''ipv4_address'') \<in> set address_fields \<and>
   first_iface V4 ''public'' droplet_blank =
     Some \<lparr>family = V4, scope = ''public'', address = ''''\<rparr> \<and>
   droplet_mapping env_ex droplet_blank ''ipv4_address'' = None \<and>
   first_iface V4 ''public'' droplet_first_blank =
     Some \<lparr>family = V4, scope = ''public'', address = ''''\<rparr> \<and>
   droplet_mapping env_ex droplet_first_blank ''ipv4_address'' = None \<and>
   first_iface V4 ''public'' droplet_web2 = None \<and>
   droplet_mapping env_ex droplet_web2 ''ipv4_address'' = None"
proof -
  have m: "(V4, ''public'', ''ipv4_address'') \<in> set address_fields"
    by (simp add: address_fields_def)
  show ?thesis
    using m empty_address_omitted [OF m, of droplet_blank env_ex]
      empty_address_omitted [OF m, of droplet_first_blank env_ex]
      empty_address_omitted [OF m, of droplet_web2 env_ex]
    by (simp add: first_iface_def findAddrByType_def droplet_blank_def
        droplet_first_blank_def droplet_web2_def)
qed

text \<open>
  Claim C5. An instance whose feature list is nil has none of the keys \<^verbatim>\<open>backups\<close>,
  \<^verbatim>\<open>ipv6\<close>, \<^verbatim>\<open>private_networking\<close>, \<^verbatim>\<open>monitoring\<close>; with a feature list that is not
  nil, an empty one included, all four are present and each tells whether its own name
  is in the list.
\<close>

theorem feature_flags:
  "(Features d = None \<longrightarrow>
      droplet_mapping env d ''backups'' = None \<and>
      droplet_mapping env d ''ipv6'' = None \<and>
      droplet_mapping env d ''private_networking'' = None \<and>
      droplet_mapping env d ''monitoring'' = None) \<and>
   (\<forall>features. Features d = Some features \<longrightarrow>
      droplet_mapping env d ''backups'' = Some (VBool (''backups'' \<in> set features)) \<and>
      droplet_mapping env d ''ipv6'' = Some (VBool (''ipv6'' \<in> set features)) \<and>
      droplet_mapping env d ''private_networking'' =
        Some (VBool (''private_networking'' \<in> set features)) \<and>
      droplet_mapping env d ''monitoring'' = Some (VBool (''monitoring'' \<in> set features)))"
  by (simp add: mapping_backups mapping_ipv6 mapping_private_networking mapping_monitoring
      containsDigitalOceanDropletFeature_def)

theorem feature_flags_witness:
  "droplet_mapping env_ex droplet_web2 ''backups'' = None \<and>
   droplet_mapping env_ex droplet_web2 ''ipv6'' = None \<and>
   droplet_mapping env_ex droplet_web2 ''private_networking'' = None \<and>
   droplet_mapping env_ex droplet_web2 ''monitoring'' = None \<and>
   droplet_mapping env_ex droplet_web1 ''backups'' = Some (VBool True) \<and>
   droplet_mapping env_ex droplet_web1 ''ipv6'' = Some (VBool True) \<and>
   droplet_mapping env_ex droplet_web1 ''private_networking'' = Some (VBool False) \<and>
   droplet_mapping env_ex droplet_web1 ''monitoring'' = Some (VBool False) \<and>
   droplet_mapping env_ex droplet_blank ''backups'' = Some (VBool False)"
  using feature_flags [of droplet_web1 env_ex] feature_flags [of droplet_web2 env_ex]
    feature_flags [of droplet_blank env_ex]
  by (simp add: droplet_web1_def droplet_web2_def droplet_blank_def)

section \<open>Properties of the paginated fetch\<close>

lemma foldl_snoc: "foldl (\<lambda>l x. l @ [f x]) acc xs = acc @ map f xs"
  by (induction xs arbitrary: acc) simp_all

lemma foldl_append_each: "foldl (\<lambda>l x. l @ [x]) acc xs = acc @ xs"
  using foldl_snoc [of "\<lambda>x. x" acc xs] by simp

lemma fetch_loop_last:
  assumes "last_page resp"
  shows "fetch_loop tag (Inr (droplets, resp) # script) opts acc =
           Some (Inr (acc @ droplets), [CallListByTag tag opts])"
  using assms
  by (simp add: last_page_def foldl_append_each split: option.splits)

lemma fetch_loop_failure:
  assumes "failure r = Some err"
  shows "fetch_loop tag (r # script) opts acc = Some (Inl (Errorf err), [CallListByTag tag opts])"
  using assms
  by (simp add: failure_def split: sum.splits prod.splits option.splits if_splits)

lemma fetch_loop_more:
  assumes "more_pages resp"
  shows "fetch_loop tag (Inr (droplets, resp) # script) opts acc =
           map_option (apsnd ((#) (CallListByTag tag opts)))
             (fetch_loop tag script
                (opts\<lparr>Page := the (reported_page resp) + 1\<rparr>) (acc @ droplets))"
  using assms
  by (auto simp add: more_pages_def last_page_def reported_page_def foldl_append_each
      split: option.splits sum.splits)

lemma fetch_loop_init:
  assumes "\<forall>(droplets, resp) \<in> set init. more_pages resp"
  shows "fetch_loop tag (map Inr init @ script) opts acc =
           map_option
             (apsnd ((@) (map (\<lambda>p. CallListByTag tag (opts\<lparr>Page := p\<rparr>))
                            (butlast (page_numbers (Page opts) init)))))
             (fetch_loop tag script
                (opts\<lparr>Page := last (page_numbers (Page opts) init)\<rparr>)
                (acc @ concat (map fst init)))"
  using assms
proof (induction init arbitrary: opts acc)
  case Nil
  then show ?case
    by (simp add: page_numbers_def option.map_ident apsnd_def map_prod_def split_def)
next
  case (Cons a init)
  obtain droplets resp where a: "a = (droplets, resp)" by (cases a)
  from Cons.prems a have more: "more_pages resp" and rest: "\<forall>(droplets, resp) \<in> set init. more_pages resp"
    by simp_all
  let ?opts = "opts\<lparr>Page := the (reported_page resp) + 1\<rparr>"
  show ?case
    using Cons.IH [OF rest, of ?opts "acc @ droplets"]
    by (cases "init = []")
      (simp_all del: fetch_loop.simps
        add: fetch_loop_more [OF more] a page_numbers_def option.map_comp comp_def apsnd_def
          map_prod_def split_def)
qed

lemma fetch_loop_success:
  assumes "fetch_loop tag script opts acc = Some (Inr dropletList, calls)"
  shows "\<exists>pages rest. script = map Inr pages @ rest \<and> length calls = length pages \<and>
           dropletList = acc @ concat (map fst pages)"
  using assms
proof (induction script arbitrary: opts acc calls)
  case Nil
  then show ?case by simp
next
  case (Cons r script)
  show ?case
  proof (cases r)
    case (Inl err)
    with Cons.prems show ?thesis by simp
  next
    case (Inr page)
    obtain droplets resp where page: "page = (droplets, resp)" by (cases page)
    show ?thesis
    proof (cases "last_page resp")
      case True
      with Cons.prems Inr page
      have "dropletList = acc @ droplets" and "length calls = 1"
        by (auto simp add: fetch_loop_last simp del: fetch_loop.simps)
      then have "r # script = map Inr [(droplets, resp)] @ script \<and>
          length calls = length [(droplets, resp)] \<and>
          dropletList = acc @ concat (map fst [(droplets, resp)])"
        using Inr page by simp
      then show ?thesis by blast
    next
      case False
      show ?thesis
      proof (cases "reported_page resp")
        case None
        with False Cons.prems Inr page show ?thesis
          by (auto simp add: last_page_def reported_page_def
              split: option.splits sum.splits if_splits)
      next
        case (Some p)
        with False have more: "more_pages resp" by (simp add: more_pages_def)
        from Cons.prems Inr page
        obtain calls' where
          rec: "fetch_loop tag script (opts\<lparr>Page := the (reported_page resp) + 1\<rparr>)
                  (acc @ droplets) = Some (Inr dropletList, calls')"
          and calls: "calls = CallListByTag tag opts # calls'"
          by (auto simp add: fetch_loop_more [OF more] simp del: fetch_loop.simps)
        from Cons.IH [OF rec] obtain pages rest where
          "script = map Inr pages @ rest" "length calls' = length pages"
          "dropletList = (acc @ droplets) @ concat (map fst pages)"
          by blast
        then have "r # script = map Inr ((droplets, resp) # pages) @ rest \<and>
            length calls = length ((droplets, resp) # pages) \<and>
            dropletList = acc @ concat (map fst ((droplets, resp) # pages))"
          using Inr page calls by simp
        then show ?thesis by blast
      qed
    qed
  qed
qed

lemma fetch_droplets_served:
  assumes "\<forall>(droplets, resp) \<in> set init. more_pages resp"
  shows "fetch_droplets tag (map Inr init @ r # rest) =
           map_option
             (apsnd ((@) (map (\<lambda>p. CallListByTag tag \<lparr>Page = p, PerPage = 200\<rparr>)
                            (butlast (page_numbers 1 init)))))
             (fetch_loop tag (r # rest)
                \<lparr>Page = last (page_numbers 1 init), PerPage = 200\<rparr> (concat (map fst init)))"
  unfolding fetch_droplets_def
  by (simp add: fetch_loop_init [OF assms] del: fetch_loop.simps)

lemma page_numbers_snoc: "butlast (page_numbers p init) @ [last (page_numbers p init)] = page_numbers p init"
  by (simp add: page_numbers_def)

lemma map_butlast_last: "xs \<noteq> [] \<Longrightarrow> map f (butlast xs) @ [f (last xs)] = map f xs"
  by (induction xs) auto

lemma call_page_numbers_snoc:
  "map (\<lambda>p. CallListByTag tag \<lparr>Page = p, PerPage = 200\<rparr>) (butlast (page_numbers q init)) @
     [CallListByTag tag \<lparr>Page = last (page_numbers q init), PerPage = 200\<rparr>] =
   map (\<lambda>p. CallListByTag tag \<lparr>Page = p, PerPage = 200\<rparr>) (page_numbers q init)"
proof -
  have "page_numbers q init \<noteq> []" by (simp add: page_numbers_def)
  then show ?thesis by (rule map_butlast_last)
qed

lemma fetch_droplets_failure:
  assumes "\<forall>(droplets, resp) \<in> set init. more_pages resp"
    and "failure r = Some err"
  shows "fetch_droplets tag (map Inr init @ r # rest) =
           Some (Inl (Errorf err),
                 map (\<lambda>p. CallListByTag tag \<lparr>Page = p, PerPage = 200\<rparr>) (page_numbers 1 init))"
  by (simp add: fetch_droplets_served [OF assms(1)] fetch_loop_failure [OF assms(2)]
      call_page_numbers_snoc del: fetch_loop.simps)

text \<open>
  The loop has no cap on the number of pages: as long as every response asks for more
  pages the routine goes on asking, and on such responses alone it does not return.
\<close>

lemma fetch_droplets_unbounded:
  assumes "\<forall>(droplets, resp) \<in> set init. more_pages resp"
  shows "fetch_droplets tag (map Inr init) = None"
proof -
  have "fetch_loop tag (map Inr init @ []) \<lparr>Page = 1, PerPage = 200\<rparr> [] = None"
    by (simp only: fetch_loop_init [OF assms]) simp
  then show ?thesis by (simp add: fetch_droplets_def)
qed

lemma Errorf_differs: "err \<noteq> Errorf err"
  by (cases err) (simp add: Errorf_def)

text \<open>
  Claim C1. When the API serves N pages, of which the first N - 1 ask for more and page N
  is a last page (it says so, or has no pagination links), the fetch returns. It asks for
  page 1 with page size 200, then for each page the number reported by the response
  before it plus 1, always with page size 200: N requests in all, whatever the client
  would answer to further ones. The accumulated list is the pages' instance lists, in
  order, one after the other; its length is the sum of their lengths.
\<close>

theorem fetch_pagination:
  assumes "pages \<noteq> []"
    and "\<forall>(droplets, resp) \<in> set (butlast pages). more_pages resp"
    and "last_page (snd (last pages))"
  shows "\<exists>dropletList calls.
           fetch_droplets tag (map Inr pages @ rest) = Some (Inr dropletList, calls) \<and>
           calls = map (\<lambda>p. CallListByTag tag \<lparr>Page = p, PerPage = 200\<rparr>)
                     (1 # map (\<lambda>(droplets, resp). the (reported_page resp) + 1)
                            (butlast pages)) \<and>
           length calls = length pages \<and>
           dropletList = concat (map fst pages) \<and>
           length dropletList = sum_list (map (\<lambda>(droplets, resp). length droplets) pages)"
proof -
  obtain droplets resp where l: "last pages = (droplets, resp)" by (cases "last pages")
  have pages: "pages = butlast pages @ [(droplets, resp)]"
    using append_butlast_last_id [OF assms(1)] l by simp
  from assms(3) l have lastp: "last_page resp" by simp
  have "map Inr pages @ rest = map Inr (butlast pages) @ Inr (droplets, resp) # rest"
    by (subst pages) simp
  then have "fetch_droplets tag (map Inr pages @ rest) =
      Some (Inr (concat (map fst (butlast pages)) @ droplets),
            map (\<lambda>p. CallListByTag tag \<lparr>Page = p, PerPage = 200\<rparr>)
              (butlast (page_numbers 1 (butlast pages)) @ [last (page_numbers 1 (butlast pages))]))"
    by (simp add: fetch_droplets_served [OF assms(2)] fetch_loop_last [OF lastp]
        del: fetch_loop.simps)
  moreover have "concat (map fst (butlast pages)) @ droplets = concat (map fst pages)"
    by (subst (2) pages) simp
  moreover have "length (butlast pages) + 1 = length pages"
    using assms(1) by simp
  moreover have "length (concat (map fst pages)) =
      sum_list (map (\<lambda>(droplets, resp). length droplets) pages)"
    by (simp add: length_concat comp_def split_def)
  ultimately show ?thesis
    by (simp add: page_numbers_snoc) (simp add: page_numbers_def)
qed

theorem fetch_pagination_witness:
  "[([droplet_web1], resp_page1), ([droplet_web2], resp_page2), ([droplet_blank], resp_last)] \<noteq> [] \<and>
   more_pages resp_page1 \<and> more_pages resp_page2 \<and> last_page resp_last \<and>
   fetch_droplets ''web''
     [Inr ([droplet_web1], resp_page1), Inr ([droplet_web2], resp_page2),
      Inr ([droplet_blank], resp_last), Inl (Error ''never asked'')] =
     Some (Inr [droplet_web1, droplet_web2, droplet_blank],
           [CallListByTag ''web'' \<lparr>Page = 1, PerPage = 200\<rparr>,
            CallListByTag ''web'' \<lparr>Page = 2, PerPage = 200\<rparr>,
            CallListByTag ''web'' \<lparr>Page = 3, PerPage = 200\<rparr>])"
proof -
  let ?pages =
    "[([droplet_web1], resp_page1), ([droplet_web2], resp_page2), ([droplet_blank], resp_last)]"
  have more: "more_pages resp_page1" "more_pages resp_page2"
    by (simp_all add: more_pages_def last_page_def reported_page_def resp_page1_def
        resp_page2_def)
  have lastp: "last_page resp_last"
    by (simp add: last_page_def resp_last_def)
  have h1: "?pages \<noteq> []" by simp
  have h2: "\<forall>(droplets, resp) \<in> set (butlast ?pages). more_pages resp"
    using more by simp
  have h3: "last_page (snd (last ?pages))"
    using lastp by simp
  have rp: "reported_page resp_page1 = Some 1" "reported_page resp_page2 = Some 2"
    by (simp_all add: reported_page_def resp_page1_def resp_page2_def)
  show ?thesis
    using fetch_pagination [OF h1 h2 h3, of "''web''" "[Inl (Error ''never asked'')]"] more lastp rp
    by (simp del: fetch_loop.simps)
qed

text \<open>
  Claim C2. When, after any number of pages that ask for more, a page request returns an
  error, or the current page of a response that is not a last page fails to parse, the
  routine returns at once. What it returns is a new error whose message is
  \<^verbatim>\<open>Error retrieving droplets: \<close> followed by the message of that error. The instances of
  the earlier pages are not returned, the store is as it was, and the only calls made
  are the page requests: \<^verbatim>\<open>SetId\<close> and \<^verbatim>\<open>Set\<close> are never called.
\<close>

theorem fetch_error_aborts:
  assumes "\<forall>(droplets, resp) \<in> set init. more_pages resp"
    and "failure r = Some err"
  shows "\<exists>calls.
           dataSourceDigitalOceanDropletsRead env d (map Inr init @ r # rest) =
             Some (Some (Errorf err), d, calls) \<and>
           message (Errorf err) = ''Error retrieving droplets: '' @ message err \<and>
           calls = map (\<lambda>p. CallListByTag (config d ''tag'') \<lparr>Page = p, PerPage = 200\<rparr>)
                     (page_numbers 1 init) \<and>
           \<not> list_ex is_store_call calls"
  by (auto simp add: dataSourceDigitalOceanDropletsRead_def fetch_droplets_failure [OF assms]
      Errorf_def list_ex_iff is_store_call_def)

theorem fetch_error_aborts_witness:
  "more_pages resp_page1 \<and>
   failure (Inl (Error ''429 Too Many Requests'')) = Some (Error ''429 Too Many Requests'') \<and>
   dataSourceDigitalOceanDropletsRead env_ex d_ex
     [Inr ([droplet_web1], resp_page1), Inl (Error ''429 Too Many Requests''),
      Inr ([droplet_web2], resp_last)] =
     Some (Some (Error ''Error retrieving droplets: 429 Too Many Requests''), d_ex,
           [CallListByTag ''web'' \<lparr>Page = 1, PerPage = 200\<rparr>,
            CallListByTag ''web'' \<lparr>Page = 2, PerPage = 200\<rparr>]) \<and>
   failure (Inr ([droplet_web2], resp_unparsed)) = Some (Error ''invalid syntax'') \<and>
   dataSourceDigitalOceanDropletsRead env_ex d_ex
     [Inr ([droplet_web1], resp_page1), Inr ([droplet_web2], resp_unparsed)] =
     Some (Some (Error ''Error retrieving droplets: invalid syntax''), d_ex,
           [CallListByTag ''web'' \<lparr>Page = 1, PerPage = 200\<rparr>,
            CallListByTag ''web'' \<lparr>Page = 2, PerPage = 200\<rparr>])"
proof -
  have more: "more_pages resp_page1"
    by (simp add: more_pages_def last_page_def reported_page_def resp_page1_def)
  have h1: "\<forall>(droplets, resp) \<in> set [([droplet_web1], resp_page1)]. more_pages resp"
    using more by simp
  have f1: "failure (Inl (Error ''429 Too Many Requests'')) = Some (Error ''429 Too Many Requests'')"
    by (simp add: failure_def)
  have f2: "failure (Inr ([droplet_web2], resp_unparsed)) = Some (Error ''invalid syntax'')"
    by (simp add: failure_def resp_unparsed_def)
  have rp: "reported_page resp_page1 = Some 1"
    by (simp add: reported_page_def resp_page1_def)
  have tag: "config d_ex ''tag'' = ''web''"
    by (simp add: d_ex_def)
  show ?thesis
    using fetch_error_aborts [OF h1 f1, of env_ex d_ex "[Inr ([droplet_web2], resp_last)]"]
      fetch_error_aborts [OF h1 f2, of env_ex d_ex "[]"] more f1 f2
    by (simp add: page_numbers_def rp tag Errorf_def
        del: fetch_loop.simps)
qed

text \<open>
  Claim C6. When the API answers the first request with a last page that holds no
  instance, and the store accepts the write, the routine stores the empty list under the
  key \<^verbatim>\<open>droplets\<close> and returns no error. This holds for every tag, so for every tag
  that is not empty.
\<close>

theorem no_instances_empty_list:
  assumes "last_page resp" and "SetError env ''droplets'' [] = None"
  shows "dataSourceDigitalOceanDropletsRead env d (Inr ([], resp) # rest) =
           Some (None,
                 d\<lparr>ResourceId := UniqueId env,
                   computed := (computed d)(''droplets'' \<mapsto> [])\<rparr>,
                 [CallListByTag (config d ''tag'') \<lparr>Page = 1, PerPage = 200\<rparr>,
                  CallSetId (UniqueId env), CallSet ''droplets'' []])"
  using assms(2)
  by (simp add: dataSourceDigitalOceanDropletsRead_def fetch_droplets_def
      fetch_loop_last [OF assms(1)] dropletsDecriptionAttributes_def
      del: fetch_loop.simps)

theorem no_instances_empty_list_witness:
  "last_page \<lparr>Links = None\<rparr> \<and> SetError env_ex ''droplets'' [] = None \<and>
   config d_ex ''tag'' \<noteq> '''' \<and>
   dataSourceDigitalOceanDropletsRead env_ex d_ex [Inr ([], \<lparr>Links = None\<rparr>)] =
     Some (None,
           \<lparr>config = config d_ex,
            ResourceId = ''terraform-20261030101500000000000001'',
            computed = [''droplets'' \<mapsto> []]\<rparr>,
           [CallListByTag ''web'' \<lparr>Page = 1, PerPage = 200\<rparr>,
            CallSetId ''terraform-20261030101500000000000001'', CallSet ''droplets'' []])"
proof -
  have h1: "last_page \<lparr>Links = None\<rparr>" by (simp add: last_page_def)
  have h2: "SetError env_ex ''droplets'' [] = None" by (simp add: env_ex_def)
  show ?thesis
    using no_instances_empty_list [OF h1 h2, of d_ex "[]"] h1 h2
    by (simp add: d_ex_def env_ex_def del: fetch_loop.simps)
qed

section \<open>Properties of the write-back\<close>

lemma Read_success:
  assumes "dataSourceDigitalOceanDropletsRead env d script = Some (None, d', calls)"
  shows "\<exists>dropletList reqs.
           fetch_droplets (config d ''tag'') script = Some (Inr dropletList, reqs) \<and>
           SetError env ''droplets'' (map (droplet_mapping env) dropletList) = None \<and>
           d' = d\<lparr>ResourceId := UniqueId env,
                  computed := (computed d)(''droplets'' \<mapsto>
                                map (droplet_mapping env) dropletList)\<rparr> \<and>
           calls = reqs @ [CallSetId (UniqueId env),
                           CallSet ''droplets'' (map (droplet_mapping env) dropletList)]"
  using assms
  by (auto simp add: dataSourceDigitalOceanDropletsRead_def dropletsDecriptionAttributes_def
      foldl_snoc Let_def split: option.splits sum.splits prod.splits)

lemma Read_failure:
  assumes "dataSourceDigitalOceanDropletsRead env d script = Some (Some err, d', calls)"
  shows "(d' = d \<and> fetch_droplets (config d ''tag'') script = Some (Inl err, calls)) \<or>
         (\<exists>dropletList reqs.
            fetch_droplets (config d ''tag'') script = Some (Inr dropletList, reqs) \<and>
            SetError env ''droplets'' (map (droplet_mapping env) dropletList) = Some err \<and>
            d' = d\<lparr>ResourceId := UniqueId env\<rparr> \<and>
            calls = reqs @ [CallSetId (UniqueId env),
                            CallSet ''droplets'' (map (droplet_mapping env) dropletList)])"
  using assms
  by (auto simp add: dataSourceDigitalOceanDropletsRead_def dropletsDecriptionAttributes_def
      foldl_snoc Let_def split: option.splits sum.splits prod.splits)

lemma fetch_loop_failure_calls:
  assumes "fetch_loop tag script opts acc = Some (Inl err, calls)"
  shows "\<not> list_ex is_store_call calls"
  using assms
proof (induction script arbitrary: opts acc calls)
  case Nil
  then show ?case by simp
next
  case (Cons r script)
  then show ?case
    by (auto simp add: is_store_call_def Let_def
        split: sum.splits prod.splits option.splits if_splits)
qed

text \<open>
  Claim C7. In every run that returns no error, the list stored under \<^verbatim>\<open>droplets\<close> is the
  flattening of one instance applied, element by element, to the instance lists of the
  pages the client served, joined in the order served: one record for each instance
  fetched, in the order of the API's responses, none added, dropped or moved. The pages
  are the first responses of the client, as many as page requests were made.
\<close>

theorem output_is_map_of_pages:
  assumes "dataSourceDigitalOceanDropletsRead env d script = Some (None, d', calls)"
  shows "\<exists>pages rest.
           script = map Inr pages @ rest \<and>
           length calls = length pages + 2 \<and>
           computed d' ''droplets'' =
             Some (map (droplet_mapping env) (concat (map fst pages))) \<and>
           last calls = CallSet ''droplets'' (map (droplet_mapping env) (concat (map fst pages))) \<and>
           length (map (droplet_mapping env) (concat (map fst pages))) =
             sum_list (map (\<lambda>(droplets, resp). length droplets) pages)"
proof -
  from Read_success [OF assms] obtain dropletList reqs where
    f: "fetch_droplets (config d ''tag'') script = Some (Inr dropletList, reqs)"
    and d': "d' = d\<lparr>ResourceId := UniqueId env,
                  computed := (computed d)(''droplets'' \<mapsto>
                                map (droplet_mapping env) dropletList)\<rparr>"
    and calls: "calls = reqs @ [CallSetId (UniqueId env),
                           CallSet ''droplets'' (map (droplet_mapping env) dropletList)]"
    by blast
  from f have "fetch_loop (config d ''tag'') script \<lparr>Page = 1, PerPage = 200\<rparr> [] =
      Some (Inr dropletList, reqs)"
    by (simp add: fetch_droplets_def del: fetch_loop.simps)
  from fetch_loop_success [OF this] obtain pages rest where
    p: "script = map Inr pages @ rest" "length reqs = length pages"
      "dropletList = concat (map fst pages)"
    by auto
  have len: "length (map (droplet_mapping env) (concat (map fst pages))) =
      sum_list (map (\<lambda>(droplets, resp). length droplets) pages)"
    by (simp add: length_concat comp_def split_def)
  have c1: "length calls = length pages + 2"
    using calls p(2) by simp
  have c2: "computed d' ''droplets'' =
      Some (map (droplet_mapping env) (concat (map fst pages)))"
    using d' p(3) by simp
  have c3: "last calls =
      CallSet ''droplets'' (map (droplet_mapping env) (concat (map fst pages)))"
    using calls p(3) by simp
  from p(1) c1 c2 c3 len show ?thesis by blast
qed

theorem output_is_map_of_pages_witness:
  "dataSourceDigitalOceanDropletsRead env_ex d_ex script_two_pages =
     Some (None,
           d_ex\<lparr>ResourceId := UniqueId env_ex,
                computed := [''droplets'' \<mapsto>
                  [droplet_mapping env_ex droplet_web1, droplet_mapping env_ex droplet_web2,
                   droplet_mapping env_ex droplet_blank]]\<rparr>,
           [CallListByTag ''web'' \<lparr>Page = 1, PerPage = 200\<rparr>,
            CallListByTag ''web'' \<lparr>Page = 2, PerPage = 200\<rparr>,
            CallSetId (UniqueId env_ex),
            CallSet ''droplets''
              [droplet_mapping env_ex droplet_web1, droplet_mapping env_ex droplet_web2,
               droplet_mapping env_ex droplet_blank]]) \<and>
   (\<exists>pages rest.
      script_two_pages = map Inr pages @ rest \<and>
      length pages = 2 \<and>
      map (droplet_mapping env_ex) (concat (map fst pages)) =
        [droplet_mapping env_ex droplet_web1, droplet_mapping env_ex droplet_web2,
         droplet_mapping env_ex droplet_blank])"
proof -
  let ?s = "[droplet_mapping env_ex droplet_web1, droplet_mapping env_ex droplet_web2,
             droplet_mapping env_ex droplet_blank]"
  let ?calls = "[CallListByTag ''web'' \<lparr>Page = 1, PerPage = 200\<rparr>,
            CallListByTag ''web'' \<lparr>Page = 2, PerPage = 200\<rparr>,
            CallSetId (UniqueId env_ex), CallSet ''droplets'' ?s]"
  have setok: "SetError env_ex ''droplets'' ?s = None"
    by (simp add: env_ex_def)
  have h: "dataSourceDigitalOceanDropletsRead env_ex d_ex script_two_pages =
     Some (None,
           d_ex\<lparr>ResourceId := UniqueId env_ex, computed := [''droplets'' \<mapsto> ?s]\<rparr>,
           ?calls)"
    using setok
    by (simp add: dataSourceDigitalOceanDropletsRead_def fetch_droplets_def
        dropletsDecriptionAttributes_def script_two_pages_def resp_page1_def resp_last_def
        d_ex_def Let_def)
  from output_is_map_of_pages [OF h]
  have ex: "\<exists>pages rest.
      script_two_pages = map Inr pages @ rest \<and>
      length pages = 2 \<and>
      map (droplet_mapping env_ex) (concat (map fst pages)) = ?s"
  proof (elim exE conjE)
    fix pages rest
    assume p1: "script_two_pages = map Inr pages @ rest"
      and p2: "length ?calls = length pages + 2"
      and p3: "last ?calls =
         CallSet ''droplets'' (map (droplet_mapping env_ex) (concat (map fst pages)))"
    from p2 have l2: "length pages = 2" by simp
    from p3 have m: "map (droplet_mapping env_ex) (concat (map fst pages)) = ?s" by simp
    show ?thesis
      by (rule exI [of _ pages], rule exI [of _ rest], intro conjI p1 l2 m)
  qed
  from h ex show ?thesis by (rule conjI)
qed

text \<open>
  Claim C8. When the fetch has succeeded and the store's \<^verbatim>\<open>Set\<close> of the key \<^verbatim>\<open>droplets\<close>
  returns an error, the routine returns that very error: it is not wrapped in the
  message that a fetch error gets, from which it always differs.
\<close>

theorem store_error_verbatim:
  assumes "fetch_droplets (config d ''tag'') script = Some (Inr dropletList, reqs)"
    and "SetError env ''droplets'' (map (droplet_mapping env) dropletList) = Some err"
  shows "dataSourceDigitalOceanDropletsRead env d script =
           Some (Some err, d\<lparr>ResourceId := UniqueId env\<rparr>,
                 reqs @ [CallSetId (UniqueId env),
                         CallSet ''droplets'' (map (droplet_mapping env) dropletList)]) \<and>
         err \<noteq> Errorf err"
  using assms
  by (simp add: dataSourceDigitalOceanDropletsRead_def dropletsDecriptionAttributes_def
      foldl_snoc Let_def Errorf_differs)

theorem store_error_verbatim_witness:
  "fetch_droplets (config d_ex ''tag'') [Inr ([droplet_web1], resp_last)] =
     Some (Inr [droplet_web1], [CallListByTag ''web'' \<lparr>Page = 1, PerPage = 200\<rparr>]) \<and>
   SetError env_reject ''droplets'' (map (droplet_mapping env_reject) [droplet_web1]) =
     Some (Error ''droplets: invalid shape'') \<and>
   dataSourceDigitalOceanDropletsRead env_reject d_ex [Inr ([droplet_web1], resp_last)] =
     Some (Some (Error ''droplets: invalid shape''),
           d_ex\<lparr>ResourceId := ''terraform-20261030101500000000000001''\<rparr>,
           [CallListByTag ''web'' \<lparr>Page = 1, PerPage = 200\<rparr>,
            CallSetId ''terraform-20261030101500000000000001'',
            CallSet ''droplets'' [droplet_mapping env_reject droplet_web1]])"
proof -
  have h1: "fetch_droplets (config d_ex ''tag'') [Inr ([droplet_web1], resp_last)] =
     Some (Inr [droplet_web1], [CallListByTag ''web'' \<lparr>Page = 1, PerPage = 200\<rparr>])"
    by (simp add: fetch_droplets_def resp_last_def d_ex_def)
  have h2: "SetError env_reject ''droplets'' (map (droplet_mapping env_reject) [droplet_web1]) =
     Some (Error ''droplets: invalid shape'')"
    by (simp add: env_reject_def)
  have uid: "UniqueId env_reject = ''terraform-20261030101500000000000001''"
    by (simp add: env_reject_def env_ex_def)
  show ?thesis
    using store_error_verbatim [OF h1 h2] h1 h2 uid by simp
qed

text \<open>
  Claim C9 as stated has every failing run leave the store, the identifier included, as
  it was. A run whose \<^verbatim>\<open>Set\<close> fails returns the error with the identifier already
  replaced: \<^verbatim>\<open>SetId\<close> comes before \<^verbatim>\<open>Set\<close>.
\<close>

theorem failed_write_keeps_id_counterexample:
  "map_option fst
     (dataSourceDigitalOceanDropletsRead env_reject d_ex [Inr ([droplet_web1], resp_last)]) =
     Some (Some (Error ''droplets: invalid shape'')) \<and>
   map_option (\<lambda>(err, d', calls). ResourceId d')
     (dataSourceDigitalOceanDropletsRead env_reject d_ex [Inr ([droplet_web1], resp_last)]) =
     Some ''terraform-20261030101500000000000001'' \<and>
   ResourceId d_ex = ''''"
  by (simp add: dataSourceDigitalOceanDropletsRead_def fetch_droplets_def
      dropletsDecriptionAttributes_def resp_last_def d_ex_def env_reject_def env_ex_def Let_def)

text \<open>
  Claim C9, amended. Every run that ends in a failure returns the error and stores no
  list. When the failure is a page request error or a parse error of the pagination
  metadata, no call on the store has been made and the store, the identifier included,
  is as it was. When the failure is the error of the store's \<^verbatim>\<open>Set\<close>, the store is as it
  was except for the identifier, which is the fresh one.
\<close>

theorem failure_leaves_store:
  assumes "dataSourceDigitalOceanDropletsRead env d script = Some (Some err, d', calls)"
  shows "computed d' = computed d \<and> config d' = config d \<and>
         (if list_ex is_store_call calls
          then d' = d\<lparr>ResourceId := UniqueId env\<rparr> \<and>
               (\<exists>s. last calls = CallSet ''droplets'' s \<and> SetError env ''droplets'' s = Some err)
          else d' = d)"
  using Read_failure [OF assms]
proof
  assume a: "d' = d \<and> fetch_droplets (config d ''tag'') script = Some (Inl err, calls)"
  then have "\<not> list_ex is_store_call calls"
    unfolding fetch_droplets_def using fetch_loop_failure_calls by blast
  with a show ?thesis by simp
next
  assume "\<exists>dropletList reqs.
            fetch_droplets (config d ''tag'') script = Some (Inr dropletList, reqs) \<and>
            SetError env ''droplets'' (map (droplet_mapping env) dropletList) = Some err \<and>
            d' = d\<lparr>ResourceId := UniqueId env\<rparr> \<and>
            calls = reqs @ [CallSetId (UniqueId env),
                            CallSet ''droplets'' (map (droplet_mapping env) dropletList)]"
  then show ?thesis
    by (auto simp add: is_store_call_def)
qed

theorem failure_leaves_store_witness:
  "dataSourceDigitalOceanDropletsRead env_reject d_ex [Inr ([droplet_web1], resp_last)] =
     Some (Some (Error ''droplets: invalid shape''),
           d_ex\<lparr>ResourceId := ''terraform-20261030101500000000000001''\<rparr>,
           [CallListByTag ''web'' \<lparr>Page = 1, PerPage = 200\<rparr>,
            CallSetId ''terraform-20261030101500000000000001'',
            CallSet ''droplets'' [droplet_mapping env_reject droplet_web1]]) \<and>
   computed (d_ex\<lparr>ResourceId := ''terraform-20261030101500000000000001''\<rparr>) = computed d_ex \<and>
   dataSourceDigitalOceanDropletsRead env_ex d_ex
     [Inr ([droplet_web1], resp_page1), Inl (Error ''503 Service Unavailable'')] =
     Some (Some (Error ''Error retrieving droplets: 503 Service Unavailable''), d_ex,
           [CallListByTag ''web'' \<lparr>Page = 1, PerPage = 200\<rparr>,
            CallListByTag ''web'' \<lparr>Page = 2, PerPage = 200\<rparr>])"
proof -
  have h1: "dataSourceDigitalOceanDropletsRead env_reject d_ex [Inr ([droplet_web1], resp_last)] =
     Some (Some (Error ''droplets: invalid shape''),
           d_ex\<lparr>ResourceId := ''terraform-20261030101500000000000001''\<rparr>,
           [CallListByTag ''web'' \<lparr>Page = 1, PerPage = 200\<rparr>,
            CallSetId ''terraform-20261030101500000000000001'',
            CallSet ''droplets'' [droplet_mapping env_reject droplet_web1]])"
    by (simp add: dataSourceDigitalOceanDropletsRead_def fetch_droplets_def
        dropletsDecriptionAttributes_def resp_last_def d_ex_def env_reject_def env_ex_def Let_def)
  have h2: "dataSourceDigitalOceanDropletsRead env_ex d_ex
     [Inr ([droplet_web1], resp_page1), Inl (Error ''503 Service Unavailable'')] =
     Some (Some (Error ''Error retrieving droplets: 503 Service Unavailable''), d_ex,
           [CallListByTag ''web'' \<lparr>Page = 1, PerPage = 200\<rparr>,
            CallListByTag ''web'' \<lparr>Page = 2, PerPage = 200\<rparr>])"
    by (simp add: dataSourceDigitalOceanDropletsRead_def fetch_droplets_def
        resp_page1_def d_ex_def Errorf_def Let_def)
  show ?thesis
    using failure_leaves_store [OF h1] failure_leaves_store [OF h2] h1 h2 by simp
qed

end
